theory Spec2Isabelle
  imports Main "HOL-Library.Multiset"
begin

section \<open>The abort registry (src/utils/abortRegistry.ts)\<close>

subsection \<open>Function values of the fetch primitive\<close>

text \<open>
  The registry stores and compares function objects and inspects their source text
  (\<^verbatim>\<open>toString().includes("__bulkImportActive") || ...includes("globalFetchControllers")\<close>).
  A function value is
  \<^item> \<open>Foreign n m\<close>: a function the registry did not create, with identity \<open>n\<close>;
    \<open>m\<close> says whether its source text contains one of the two marker strings
    (the browser's own fetch has \<open>m = False\<close>; a wrapper left behind by another
    instance of the class has \<open>m = True\<close>);
  \<^item> \<open>Bound f\<close>: the result of \<^verbatim>\<open>f.bind(window)\<close>, whose text is
    \<^verbatim>\<open>function () { [native code] }\<close> and so never contains a marker;
  \<^item> \<open>Wrapper n\<close>: the \<open>n\<close>-th closure created by \<^verbatim>\<open>startGlobalInterception\<close>.
    Its body names both marker strings. It reads \<^verbatim>\<open>self.originalFetch\<close> when it is
    called, so what it delegates to is the registry's field at call time.
\<close>

datatype fetchfn = Foreign nat bool | Bound fetchfn | Wrapper nat

fun marked :: "fetchfn \<Rightarrow> bool" where
  "marked (Foreign n m) = m"
| "marked (Bound f) = False"
| "marked (Wrapper n) = True"

subsection \<open>Abort controllers\<close>

text \<open>
  Controllers are shared mutable objects: the registry holds references, callers hold
  references too. They live in a heap indexed by identity. \<open>abortThrows\<close> describes an
  object whose \<^verbatim>\<open>abort()\<close> raises; it is what the \<^verbatim>\<open>try { ... } catch\<close>
  around each call in \<^verbatim>\<open>abortAll\<close> is there for.
\<close>

record abortController =
  aborted :: bool
  abortThrows :: bool

datatype jsError = TypeError | AbortFailure nat | FetchRejected string

type_synonym ctrlHeap = "nat \<Rightarrow> abortController"

definition abort :: "nat \<Rightarrow> ctrlHeap \<Rightarrow> jsError + ctrlHeap" where
  "abort c h =
     (if abortThrows (h c) then Inl (AbortFailure c)
      else Inr (h(c := (h c)\<lparr>aborted := True\<rparr>)))"

subsection \<open>Registry and global state\<close>

text \<open>
  \<open>controllers\<close> is a \<^verbatim>\<open>Set\<close> (insertion ordered, no duplicates),
  \<open>globalFetchControllers\<close> a \<^verbatim>\<open>Map\<close> from request id to controller
  (insertion ordered, one entry per key), \<open>fetchMap\<close> a \<^verbatim>\<open>WeakMap\<close> from
  controller to its set of promises.
\<close>

record registry =
  controllers :: "nat list"
  fetchMap :: "nat \<Rightarrow> nat list option"
  globalFetchControllers :: "(string \<times> nat) list"
  isIntercepting :: bool
  originalFetch :: "fetchfn option"
  permanentOriginalFetch :: "fetchfn option"
  nativeFetchBackup :: "fetchfn option"

text \<open>
  The global state the registry works on: whether \<^verbatim>\<open>window\<close> is defined, the
  global \<^verbatim>\<open>fetch\<close>, the two flags on \<^verbatim>\<open>window\<close>, the controller heap with its
  allocation counter, the counters that give fresh closures and promises their identity,
  and the singleton instance.
\<close>

record world =
  hasWindow :: bool
  windowFetch :: fetchfn
  bulkImportActive :: bool
  bulkImportDisableInterception :: bool
  heap :: ctrlHeap
  nextCtrl :: nat
  nextWrapper :: nat
  nextPromise :: nat
  reg :: registry

text \<open>Field initialisers and the constructor (lines 7--29).\<close>

definition newRegistry :: "bool \<Rightarrow> fetchfn \<Rightarrow> registry" where
  "newRegistry hw f =
     \<lparr> controllers = [],
       fetchMap = (\<lambda>c. None),
       globalFetchControllers = [],
       isIntercepting = False,
       originalFetch = None,
       permanentOriginalFetch = None,
       nativeFetchBackup = (if hw then Some (Bound f) else None) \<rparr>"

definition setAdd :: "'a \<Rightarrow> 'a list \<Rightarrow> 'a list" where
  "setAdd x xs = (if x \<in> set xs then xs else xs @ [x])"

fun mapSet :: "'k \<Rightarrow> 'v \<Rightarrow> ('k \<times> 'v) list \<Rightarrow> ('k \<times> 'v) list" where
  "mapSet k v [] = [(k, v)]"
| "mapSet k v ((k', v') # kvs) =
     (if k' = k then (k, v) # kvs else (k', v') # mapSet k v kvs)"

definition mapDelete :: "'k \<Rightarrow> ('k \<times> 'v) list \<Rightarrow> ('k \<times> 'v) list" where
  "mapDelete k kvs = filter (\<lambda>kv. fst kv \<noteq> k) kvs"

definition register :: "nat \<Rightarrow> registry \<Rightarrow> registry" where
  "register c r =
     r\<lparr> controllers := setAdd c (controllers r),
        fetchMap := (if fetchMap r c = None then (fetchMap r)(c \<mapsto> []) else fetchMap r) \<rparr>"


definition unregister :: "nat \<Rightarrow> registry \<Rightarrow> registry" where
  "unregister c r = r\<lparr> controllers := removeAll c (controllers r) \<rparr>"

subsection \<open>Installing and removing the wrapper\<close>

text \<open>
  \<^verbatim>\<open>startGlobalInterception\<close> (lines 65--190). The \<^verbatim>\<open>try\<close> block cannot raise
  on a function value, so its \<^verbatim>\<open>catch\<close> is not a branch here. Console output is
  not modelled.
\<close>

definition startGlobalInterception :: "world \<Rightarrow> world" where
  "startGlobalInterception w =
     (if \<not> hasWindow w \<or> isIntercepting (reg w) then w
      else
        let r = reg w;
            cur = windowFetch w;
            orig = (if marked cur then
                      (case permanentOriginalFetch r of
                         Some p \<Rightarrow> p
                       | None \<Rightarrow> (case nativeFetchBackup r of Some n \<Rightarrow> n | None \<Rightarrow> cur))
                    else cur);
            perm = (case permanentOriginalFetch r of None \<Rightarrow> cur | Some p \<Rightarrow> p)
        in w\<lparr> windowFetch := Wrapper (nextWrapper w),
               nextWrapper := Suc (nextWrapper w),
               reg := r\<lparr> originalFetch := Some orig,
                           permanentOriginalFetch := Some perm,
                           isIntercepting := True \<rparr> \<rparr>)"

text \<open>
  \<^verbatim>\<open>stopGlobalInterception\<close> (lines 195--281). \<open>dev\<close> is
  \<^verbatim>\<open>process.env.NODE_ENV === "development"\<close>. The function is written in the
  source's three steps: restore from a reference, clear the flag, verify.
\<close>

definition restoreStep :: "world \<Rightarrow> bool \<times> world" where
  "restoreStep w =
     (case originalFetch (reg w) of
        Some f \<Rightarrow> (True, w\<lparr> windowFetch := f \<rparr>)
      | None \<Rightarrow>
          (case permanentOriginalFetch (reg w) of
             Some p \<Rightarrow> (True, w\<lparr> windowFetch := p, reg := (reg w)\<lparr> originalFetch := Some p \<rparr> \<rparr>)
           | None \<Rightarrow> (False, w)))"

definition verifyStep :: "bool \<Rightarrow> bool \<Rightarrow> world \<Rightarrow> world" where
  "verifyStep dev restored w =
     (if dev \<and> restored then
        (if marked (windowFetch w) then
           (case nativeFetchBackup (reg w) of
              Some n \<Rightarrow> w\<lparr> windowFetch := n, reg := (reg w)\<lparr> originalFetch := Some n \<rparr> \<rparr>
            | None \<Rightarrow> w)
         else w)
      else w)"

definition stopGlobalInterception :: "bool \<Rightarrow> world \<Rightarrow> world" where
  "stopGlobalInterception dev w =
     (if \<not> hasWindow w then w
      else
        let (restored, w1) = restoreStep w;
            w2 = w1\<lparr> reg := (reg w1)\<lparr> isIntercepting := False \<rparr> \<rparr>
        in verifyStep dev restored w2)"

definition forceRestoreNativeFetch :: "world \<Rightarrow> world" where
  "forceRestoreNativeFetch w =
     (if \<not> hasWindow w then w
      else
        (case nativeFetchBackup (reg w) of
           Some n \<Rightarrow> w\<lparr> windowFetch := n, reg := (reg w)\<lparr> originalFetch := Some n \<rparr> \<rparr>
         | None \<Rightarrow> w))"

subsection \<open>The installed wrapper (lines 110--183)\<close>

text \<open>
  A call supplies the request's URL text and, when \<^verbatim>\<open>init.signal\<close> is given, the
  controller that signal belongs to. \<open>stamp\<close> is the text of
  \<^verbatim>\<open>${Date.now()}_${Math.random()}\<close> for this call. The synchronous part of the
  wrapper either invokes a function with the caller's arguments unchanged
  (\<open>Untracked\<close>), or invokes it with the signal of a fresh controller filed under a
  request id (\<open>Tracked\<close>), or raises because \<^verbatim>\<open>self.originalFetch\<close> is null.
  The listener attached to a caller's signal that is not yet aborted (lines 160--164) runs
  at a later event and is not part of the synchronous call.
\<close>

record fetchRequest =
  url :: string
  existingSignal :: "nat option"

datatype fetchCall = Untracked fetchfn | Tracked fetchfn string nat

definition wrapperCall :: "string \<Rightarrow> fetchRequest \<Rightarrow> world \<Rightarrow> (jsError + fetchCall) \<times> world" where
  "wrapperCall stamp req w =
     (let r = reg w in
      if hasWindow w \<and> bulkImportDisableInterception w then
        (Inr (Untracked
               (case originalFetch r of
                  Some f \<Rightarrow> f
                | None \<Rightarrow> (case nativeFetchBackup r of Some n \<Rightarrow> n | None \<Rightarrow> windowFetch w))),
         w)
      else if hasWindow w \<and> \<not> bulkImportActive w then
        (case originalFetch r of
           Some f \<Rightarrow> (Inr (Untracked f), w)
         | None \<Rightarrow> (Inl TypeError, w))
      else
        let c = nextCtrl w;
            h1 = (heap w)(c := \<lparr> aborted = False, abortThrows = False \<rparr>);
            requestId = url req @ ''_'' @ stamp;
            r1 = r\<lparr> globalFetchControllers := mapSet requestId c (globalFetchControllers r) \<rparr>;
            h2 = (case existingSignal req of
                    Some e \<Rightarrow> (if aborted (h1 e) then h1(c := (h1 c)\<lparr> aborted := True \<rparr>) else h1)
                  | None \<Rightarrow> h1);
            w1 = w\<lparr> heap := h2, nextCtrl := Suc c, reg := r1 \<rparr>
        in (case originalFetch r of
              Some f \<Rightarrow> (Inr (Tracked f requestId c), w1)
            | None \<Rightarrow> (Inl TypeError, w1)))"

text \<open>The \<^verbatim>\<open>.finally\<close> callback of a tracked call (lines 177--180).\<close>

definition wrapperSettle :: "string \<Rightarrow> world \<Rightarrow> world" where
  "wrapperSettle requestId w =
     w\<lparr> reg := (reg w)\<lparr> globalFetchControllers :=
                            mapDelete requestId (globalFetchControllers (reg w)) \<rparr> \<rparr>"

subsection \<open>Aborting everything (lines 299--346)\<close>

definition tryCatch :: "('s \<Rightarrow> 'e + 's) \<Rightarrow> ('e \<Rightarrow> 's \<Rightarrow> 'e + 's) \<Rightarrow> 's \<Rightarrow> 'e + 's" where
  "tryCatch body handler s = (case body s of Inl e \<Rightarrow> handler e s | Inr s' \<Rightarrow> Inr s')"

text \<open>\<^verbatim>\<open>Array.prototype.forEach\<close>: an exception leaving the callback ends the loop.\<close>

fun forEach :: "('a \<Rightarrow> 's \<Rightarrow> 'e + 's) \<Rightarrow> 'a list \<Rightarrow> 's \<Rightarrow> 'e + 's" where
  "forEach f [] s = Inr s"
| "forEach f (x # xs) s = (case f x s of Inl e \<Rightarrow> Inl e | Inr s' \<Rightarrow> forEach f xs s')"

text \<open>The callback passed to both loops: the guarded abort inside try/catch.\<close>

definition abortOne :: "nat \<Rightarrow> ctrlHeap \<Rightarrow> jsError + ctrlHeap" where
  "abortOne c =
     tryCatch (\<lambda>h. if \<not> aborted (h c) then abort c h else Inr h) (\<lambda>e h. Inr h)"

definition abortAll :: "world \<Rightarrow> jsError + world" where
  "abortAll w =
     (let controllersToAbort = controllers (reg w);
          globalControllersToAbort = map snd (globalFetchControllers (reg w))
      in case forEach abortOne controllersToAbort (heap w) of
           Inl e \<Rightarrow> Inl e
         | Inr h1 \<Rightarrow>
             (case forEach abortOne globalControllersToAbort h1 of
                Inl e \<Rightarrow> Inl e
              | Inr h2 \<Rightarrow>
                  Inr (w\<lparr> heap := h2,
                          reg := (reg w)\<lparr> controllers := [], globalFetchControllers := [] \<rparr> \<rparr>)))"

definition getCount :: "world \<Rightarrow> nat" where
  "getCount w = length (controllers (reg w)) + length (globalFetchControllers (reg w))"

subsection \<open>trackedFetch (lines 422--453)\<close>







subsection \<open>Histories of the registry\<close>

text \<open>
  The operations that code outside the class can perform on the singleton and on the two
  flags. Nothing else assigns \<^verbatim>\<open>window.fetch\<close>. A history starts from the state
  right after the module is loaded.
\<close>

datatype action =
    Start
  | Stop bool
  | ForceRestoreNative
  | AbortAll
  | Register nat
  | Unregister nat
  | WrapperCall string fetchRequest
  | WrapperSettle string
  | SetBulkImportActive bool
  | SetDisableInterception bool

fun step :: "action \<Rightarrow> world \<Rightarrow> world" where
  "step Start w = startGlobalInterception w"
| "step (Stop dev) w = stopGlobalInterception dev w"
| "step ForceRestoreNative w = forceRestoreNativeFetch w"
| "step AbortAll w = (case abortAll w of Inr w' \<Rightarrow> w' | Inl e \<Rightarrow> w)"
| "step (Register c) w = w\<lparr> reg := register c (reg w) \<rparr>"
| "step (Unregister c) w = w\<lparr> reg := unregister c (reg w) \<rparr>"
| "step (WrapperCall stamp req) w = snd (wrapperCall stamp req w)"
| "step (WrapperSettle requestId) w = wrapperSettle requestId w"
| "step (SetBulkImportActive b) w = w\<lparr> bulkImportActive := b \<rparr>"
| "step (SetDisableInterception b) w = w\<lparr> bulkImportDisableInterception := b \<rparr>"

fun run :: "action list \<Rightarrow> world \<Rightarrow> world" where
  "run [] w = w"
| "run (a # as) w = run as (step a w)"

definition isWrapper :: "fetchfn \<Rightarrow> bool" where
  "isWrapper f = (case f of Wrapper n \<Rightarrow> True | _ \<Rightarrow> False)"

text \<open>
  The state right after \<^verbatim>\<open>export const abortRegistry = ...\<close> has run: the instance
  is new and has created no closure yet, so the global fetch is not one of its wrappers
  (it may be a marked function that an earlier instance left installed).
\<close>

definition moduleLoaded :: "world \<Rightarrow> bool" where
  "moduleLoaded w \<longleftrightarrow>
     reg w = newRegistry (hasWindow w) (windowFetch w) \<and> \<not> isWrapper (windowFetch w)"

definition loadModule :: "bool \<Rightarrow> fetchfn \<Rightarrow> world" where
  "loadModule hw f =
     \<lparr> hasWindow = hw,
       windowFetch = f,
       bulkImportActive = False,
       bulkImportDisableInterception = False,
       heap = (\<lambda>c. \<lparr> aborted = False, abortThrows = False \<rparr>),
       nextCtrl = 0,
       nextWrapper = 0,
       nextPromise = 0,
       reg = newRegistry hw f \<rparr>"

text \<open>
  A registry whose saved original is itself a marked function, with the native backup
  in place.
\<close>

definition markedReferenceWorld :: world where
  "markedReferenceWorld =
     (loadModule True (Foreign 1 True))
       \<lparr> reg := (newRegistry True (Foreign 1 True))
                  \<lparr> originalFetch := Some (Foreign 1 True), isIntercepting := True \<rparr> \<rparr>"

text \<open>
  A registry with two registered controllers and two intercepted requests. Controller 1
  is already aborted, controller 2 raises from \<^verbatim>\<open>abort()\<close>, controllers 3 and 4 are live.
\<close>

definition busyWorld :: world where
  "busyWorld =
     (loadModule True (Foreign 0 False))
       \<lparr> heap := (\<lambda>c. \<lparr> aborted = (c = 1), abortThrows = (c = 2) \<rparr>),
          nextCtrl := 5,
          reg := (newRegistry True (Foreign 0 False))
                   \<lparr> controllers := [2, 3],
                      globalFetchControllers := [(''/a_1_0.1'', 1), (''/b_2_0.2'', 4)] \<rparr> \<rparr>"



section \<open>The bulk-import route (POST /api/lists/[id]/bulk-import)\<close>

text \<open>
  \<^verbatim>\<open>BulkImportUrl\<close> is an element of the request body, \<^verbatim>\<open>UrlItem\<close> an element of
  the stored list. Optional fields are options. Positions are the integers the
  application writes into them.
\<close>

record bulkImportUrl =
  url :: string
  title :: "string option"
  tags :: "string list option"
  notesText :: "string option"
  reminder :: "string option"
  category :: "string option"
  isFavorite :: "bool option"
  isPinned :: "bool option"

record urlItem =
  item_id :: string
  url :: string
  title :: string
  createdAt :: string
  updatedAt :: string
  isFavorite :: bool
  isPinned :: bool
  tags :: "string list"
  notesText :: string
  reminder :: "string option"
  category :: "string option"
  clickCount :: nat
  position :: "int option"


record postInput =
  currentUser :: "string option"
  body :: "string + bulkImportUrl list option"
  currentList :: "urlItem list option option"
  permissionError :: "string option"
  updateListError :: "string option"
  afterWriteError :: "string option"












section \<open>The import pipeline\<close>

text \<open>
  Modelled from the spec: the component that runs an import (\<^verbatim>\<open>beginImport\<close>, the
  handler behind the file input of \<^verbatim>\<open>UrlBulkImportExport\<close>) is not among the source
  files; only its test and a description of its workflow are. The definitions below
  follow sections 4.3 and 4.4 of the specification: parse, validate, turn interception
  on, attempt the batch call, fall back to one record at a time, and clean up on every
  exit path. Cleanup uses the registry operations defined above.
\<close>

datatype batchResponse = BatchUnavailable | BatchDisabled | BatchFailed | BatchSucceeded

datatype recordResult = Added | PersistFailed | ThrownError string

record importOutcome =
  added :: nat
  skipped :: nat
  errors :: "string list"

record importEnv =
  devBuild :: bool
  parseFile :: "string \<Rightarrow> string list \<times> string list"
  validUrl :: "string \<Rightarrow> bool"
  batchAttempt :: "string list \<Rightarrow> batchResponse"
  processRecord :: "string \<Rightarrow> recordResult"
  activity :: "action list"

record importRun =
  outcome :: importOutcome
  finalWorld :: world
  bulkImportJustCompleted :: bool

text \<open>
  Modelled from the spec: the sequential fallback. Records are taken in input order; a
  persistence failure is counted as skipped and the loop goes on; an error thrown in the
  middle of the loop ends it.
\<close>

fun fallbackSequential ::
  "(string \<Rightarrow> recordResult) \<Rightarrow> string list \<Rightarrow> nat \<times> nat \<times> string list" where
  "fallbackSequential f [] = (0, 0, [])"
| "fallbackSequential f (r # rs) =
     (case f r of
        Added \<Rightarrow> (case fallbackSequential f rs of (a, s, es) \<Rightarrow> (Suc a, s, es))
      | PersistFailed \<Rightarrow> (case fallbackSequential f rs of (a, s, es) \<Rightarrow> (a, Suc s, es))
      | ThrownError msg \<Rightarrow> (0, Suc (length rs), [msg]))"

text \<open>
  Modelled from the spec: the cleanup coordinator of section 4.4. Step 1 clears the
  session flag, step 2 calls \<^verbatim>\<open>abortAll\<close>, step 3 stops interception, step 5 raises
  the transient flag. Step 4 clears framework caches, which are not part of the state.
\<close>

definition cleanup :: "bool \<Rightarrow> world \<Rightarrow> world \<times> bool" where
  "cleanup dev w =
     (let w1 = w\<lparr> bulkImportActive := False \<rparr>;
          w2 = (case abortAll w1 of Inr w' \<Rightarrow> w' | Inl e \<Rightarrow> w1);
          w3 = stopGlobalInterception dev w2
      in (w3, True))"

text \<open>
  Modelled from the spec: the pipeline. \<open>activity env\<close> is what else happens to the
  registry and the flags while the import is running.
\<close>

definition beginImport :: "importEnv \<Rightarrow> string \<Rightarrow> world \<Rightarrow> importRun" where
  "beginImport env rawFile w =
     (case parseFile env rawFile of
        (records, parseErrors) \<Rightarrow>
          let valid = filter (validUrl env) records;
              dropped = length records - length valid
          in if valid = [] then
               (case cleanup (devBuild env) w of
                  (w', justCompleted) \<Rightarrow>
                    \<lparr> outcome = \<lparr> added = 0, skipped = dropped, errors = parseErrors \<rparr>,
                      finalWorld = w', bulkImportJustCompleted = justCompleted \<rparr>)
             else
               let w1 = startGlobalInterception (w\<lparr> bulkImportActive := True \<rparr>);
                   w2 = run (activity env) w1;
                   result =
                     (case batchAttempt env valid of
                        BatchSucceeded \<Rightarrow>
                          \<lparr> added = length valid, skipped = dropped, errors = parseErrors \<rparr>
                      | _ \<Rightarrow>
                          (case fallbackSequential (processRecord env) valid of
                             (a, s, es) \<Rightarrow>
                               \<lparr> added = a, skipped = dropped + s, errors = parseErrors @ es \<rparr>))
               in (case cleanup (devBuild env) w2 of
                     (w', justCompleted) \<Rightarrow>
                       \<lparr> outcome = result, finalWorld = w',
                         bulkImportJustCompleted = justCompleted \<rparr>))"

text \<open>
  An import of three records of which one has no valid URL, with the batch endpoint
  failing and the second valid record raising in the middle of the fallback loop, while a
  request is tracked through the wrapper.
\<close>

definition failingImport :: importEnv where
  "failingImport =
     \<lparr> devBuild = False,
       parseFile = (\<lambda>raw. ([''http://a.io/1'', ''nope'', ''http://a.io/2''], [])),
       validUrl = (\<lambda>u. u \<noteq> ''nope''),
       batchAttempt = (\<lambda>rs. BatchFailed),
       processRecord = (\<lambda>u. if u = ''http://a.io/2'' then ThrownError ''boom'' else Added),
       activity = [WrapperCall ''1_0.5'' \<lparr> fetchRequest.url = ''/m'', existingSignal = None \<rparr>,
                   SetBulkImportActive True] \<rparr>"

section \<open>Invariant of the registry's histories\<close>

text \<open>
  What every history keeps true of the references the registry holds: the saved
  original and the native backup never carry the marker; the native backup exists
  whenever \<^verbatim>\<open>window\<close> does; a marked global fetch outside interception means
  nothing has been saved yet; the permanent backup is set only together with the saved
  original; one of this instance's wrappers is installed only with a saved original; and
  outside interception the global fetch is the saved original.
\<close>

definition registryInv :: "world \<Rightarrow> bool" where
  "registryInv w \<longleftrightarrow>
     (\<forall>f. originalFetch (reg w) = Some f \<longrightarrow> \<not> marked f) \<and>
     (\<forall>n. nativeFetchBackup (reg w) = Some n \<longrightarrow> \<not> marked n) \<and>
     (hasWindow w \<longrightarrow> nativeFetchBackup (reg w) \<noteq> None) \<and>
     (\<not> isIntercepting (reg w) \<and> marked (windowFetch w) \<longrightarrow>
        permanentOriginalFetch (reg w) = None) \<and>
     (originalFetch (reg w) = None \<longrightarrow> permanentOriginalFetch (reg w) = None) \<and>
     (isWrapper (windowFetch w) \<longrightarrow> hasWindow w \<and> originalFetch (reg w) \<noteq> None) \<and>
     (\<forall>f. \<not> isIntercepting (reg w) \<and> originalFetch (reg w) = Some f \<longrightarrow> windowFetch w = f)"

text \<open>The part of the state that the interception logic reads and writes.\<close>

definition fetchView ::
  "world \<Rightarrow> bool \<times> fetchfn \<times> bool \<times> fetchfn option \<times> fetchfn option \<times> fetchfn option" where
  "fetchView w =
     (hasWindow w, windowFetch w, isIntercepting (reg w), originalFetch (reg w),
      permanentOriginalFetch (reg w), nativeFetchBackup (reg w))"

section \<open>Properties of the registry\<close>

subsection \<open>The invariant holds along every history\<close>

lemma registryInv_moduleLoaded: "moduleLoaded w \<Longrightarrow> registryInv w"
  by (auto simp: moduleLoaded_def registryInv_def newRegistry_def)

lemma registryInv_start: "registryInv w \<Longrightarrow> registryInv (startGlobalInterception w)"
  by (auto simp: registryInv_def startGlobalInterception_def Let_def isWrapper_def
           split: option.splits)

lemma registryInv_stop: "registryInv w \<Longrightarrow> registryInv (stopGlobalInterception dev w)"
  by (auto simp: registryInv_def stopGlobalInterception_def restoreStep_def verifyStep_def
                 isWrapper_def
           split: option.splits fetchfn.splits)

lemma registryInv_forceRestore: "registryInv w \<Longrightarrow> registryInv (forceRestoreNativeFetch w)"
  by (auto simp: registryInv_def forceRestoreNativeFetch_def isWrapper_def
           split: option.splits fetchfn.splits)

lemma registryInv_fetchView: "fetchView w' = fetchView w \<Longrightarrow> registryInv w \<Longrightarrow> registryInv w'"
  by (simp add: fetchView_def registryInv_def)

lemma fetchView_wrapperCall: "fetchView (snd (wrapperCall stamp req w)) = fetchView w"
  by (simp add: fetchView_def wrapperCall_def Let_def split: option.splits)

lemma fetchView_abortAll: "abortAll w = Inr w' \<Longrightarrow> fetchView w' = fetchView w"
  by (auto simp: fetchView_def abortAll_def Let_def split: sum.splits)

lemma registryInv_step: "registryInv w \<Longrightarrow> registryInv (step a w)"
proof (cases a)
  case Start
  then show "registryInv w \<Longrightarrow> ?thesis" by (simp add: registryInv_start)
next
  case (Stop dev)
  then show "registryInv w \<Longrightarrow> ?thesis" by (simp add: registryInv_stop)
next
  case ForceRestoreNative
  then show "registryInv w \<Longrightarrow> ?thesis" by (simp add: registryInv_forceRestore)
next
  case AbortAll
  then show "registryInv w \<Longrightarrow> ?thesis"
    by (auto split: sum.splits dest: fetchView_abortAll intro: registryInv_fetchView)
next
  case (WrapperCall stamp req)
  then show "registryInv w \<Longrightarrow> ?thesis"
    by (auto intro: registryInv_fetchView [OF fetchView_wrapperCall])
qed (auto simp: registryInv_def register_def unregister_def wrapperSettle_def)

lemma registryInv_run: "registryInv w \<Longrightarrow> registryInv (run as w)"
  by (induction as arbitrary: w) (auto simp: registryInv_step)




lemmas load_defs = moduleLoaded_def loadModule_def newRegistry_def isWrapper_def

subsection \<open>At most one wrapper layer\<close>



subsection \<open>Stopping outside interception\<close>



subsection \<open>What stopping restores\<close>

lemma stop_intercepting: "hasWindow w \<Longrightarrow> \<not> isIntercepting (reg (stopGlobalInterception dev w))"
  by (cases "originalFetch (reg w)"; cases "permanentOriginalFetch (reg w)";
      cases "nativeFetchBackup (reg w)"; cases dev)
     (simp_all add: stopGlobalInterception_def restoreStep_def verifyStep_def)

lemma stop_from_original:
  "hasWindow w \<Longrightarrow> originalFetch (reg w) = Some f \<Longrightarrow> \<not> (dev \<and> marked f) \<Longrightarrow>
   windowFetch (stopGlobalInterception dev w) = f"
  by (cases dev) (simp_all add: stopGlobalInterception_def restoreStep_def verifyStep_def)

lemma stop_from_permanent:
  "hasWindow w \<Longrightarrow> originalFetch (reg w) = None \<Longrightarrow> permanentOriginalFetch (reg w) = Some p \<Longrightarrow>
   \<not> (dev \<and> marked p) \<Longrightarrow>
   windowFetch (stopGlobalInterception dev w) = p \<and>
   originalFetch (reg (stopGlobalInterception dev w)) = Some p"
  by (cases dev) (simp_all add: stopGlobalInterception_def restoreStep_def verifyStep_def)

lemma stop_without_reference:
  "originalFetch (reg w) = None \<Longrightarrow> permanentOriginalFetch (reg w) = None \<Longrightarrow>
   windowFetch (stopGlobalInterception dev w) = windowFetch w"
  by (simp add: stopGlobalInterception_def restoreStep_def verifyStep_def)

lemma stop_forced_native:
  "hasWindow w \<Longrightarrow>
   originalFetch (reg w) = Some f \<or>
     originalFetch (reg w) = None \<and> permanentOriginalFetch (reg w) = Some f \<Longrightarrow>
   marked f \<Longrightarrow> nativeFetchBackup (reg w) = Some n \<Longrightarrow>
   windowFetch (stopGlobalInterception True w) = n \<and>
   originalFetch (reg (stopGlobalInterception True w)) = Some n"
  by (auto simp: stopGlobalInterception_def restoreStep_def verifyStep_def)

text \<open>
  C3, as stated, fails. The module is loaded while the global fetch is a marked
  function and the native backup is captured; stopping, in either build, leaves the
  marked function in place: the native backup is not part of the restore chain and no
  verification runs, because nothing was restored. And where the saved original is
  marked, the production build restores it and stops there, while the development build
  goes on to the native backup.
\<close>

theorem C3_stop_counterexample:
  "nativeFetchBackup (reg (loadModule True (Foreign 1 True))) = Some (Bound (Foreign 1 True)) \<and>
   \<not> marked (Bound (Foreign 1 True)) \<and>
   marked (windowFetch (stopGlobalInterception True (loadModule True (Foreign 1 True)))) \<and>
   marked (windowFetch (stopGlobalInterception False (loadModule True (Foreign 1 True)))) \<and>
   nativeFetchBackup (reg markedReferenceWorld) = Some (Bound (Foreign 1 True)) \<and>
   marked (windowFetch (stopGlobalInterception False markedReferenceWorld)) \<and>
   \<not> marked (windowFetch (stopGlobalInterception True markedReferenceWorld))"
  by (simp add: markedReferenceWorld_def loadModule_def newRegistry_def
                stopGlobalInterception_def restoreStep_def verifyStep_def)

text \<open>
  C3, amended. With \<^verbatim>\<open>window\<close> defined, stopping clears the interception flag and
  restores the global fetch from the saved original, else from the permanent backup
  (which then becomes the saved original), else leaves it as it is. Only in a
  development build, and only when one of the two references was restored, the restored
  function is inspected, and if it is marked the native backup replaces it.
\<close>

theorem C3_stop_restore_chain:
  assumes "hasWindow w"
  shows "(originalFetch (reg w) = Some f \<and> \<not> (dev \<and> marked f) \<longrightarrow>
            windowFetch (stopGlobalInterception dev w) = f) \<and>
         (originalFetch (reg w) = None \<and> permanentOriginalFetch (reg w) = Some f \<and>
            \<not> (dev \<and> marked f) \<longrightarrow>
            windowFetch (stopGlobalInterception dev w) = f \<and>
            originalFetch (reg (stopGlobalInterception dev w)) = Some f) \<and>
         (originalFetch (reg w) = None \<and> permanentOriginalFetch (reg w) = None \<longrightarrow>
            windowFetch (stopGlobalInterception dev w) = windowFetch w) \<and>
         (dev \<and> marked f \<and> nativeFetchBackup (reg w) = Some n \<and>
            (originalFetch (reg w) = Some f \<or>
             originalFetch (reg w) = None \<and> permanentOriginalFetch (reg w) = Some f) \<longrightarrow>
            windowFetch (stopGlobalInterception dev w) = n \<and>
            originalFetch (reg (stopGlobalInterception dev w)) = Some n) \<and>
         \<not> isIntercepting (reg (stopGlobalInterception dev w))"
proof (intro conjI impI)
  show "\<not> isIntercepting (reg (stopGlobalInterception dev w))"
    using assms by (rule stop_intercepting)
next
  assume "originalFetch (reg w) = Some f \<and> \<not> (dev \<and> marked f)"
  with assms show "windowFetch (stopGlobalInterception dev w) = f"
    by (simp add: stop_from_original)
next
  assume a: "originalFetch (reg w) = None \<and> permanentOriginalFetch (reg w) = Some f \<and>
    \<not> (dev \<and> marked f)"
  with assms show "windowFetch (stopGlobalInterception dev w) = f"
    using stop_from_permanent [of w f dev] by simp
  from a assms show "originalFetch (reg (stopGlobalInterception dev w)) = Some f"
    using stop_from_permanent [of w f dev] by simp
next
  assume "originalFetch (reg w) = None \<and> permanentOriginalFetch (reg w) = None"
  then show "windowFetch (stopGlobalInterception dev w) = windowFetch w"
    by (simp add: stop_without_reference)
next
  assume a: "dev \<and> marked f \<and> nativeFetchBackup (reg w) = Some n \<and>
    (originalFetch (reg w) = Some f \<or>
     originalFetch (reg w) = None \<and> permanentOriginalFetch (reg w) = Some f)"
  with assms show "windowFetch (stopGlobalInterception dev w) = n"
    using stop_forced_native [of w f n] by auto
  from a assms show "originalFetch (reg (stopGlobalInterception dev w)) = Some n"
    using stop_forced_native [of w f n] by auto
qed

theorem C3_stop_restore_chain_witness:
  "hasWindow markedReferenceWorld \<and>
   originalFetch (reg markedReferenceWorld) = Some (Foreign 1 True) \<and>
   marked (Foreign 1 True) \<and>
   nativeFetchBackup (reg markedReferenceWorld) = Some (Bound (Foreign 1 True)) \<and>
   windowFetch (stopGlobalInterception False markedReferenceWorld) = Foreign 1 True \<and>
   windowFetch (stopGlobalInterception True markedReferenceWorld) = Bound (Foreign 1 True) \<and>
   originalFetch (reg (stopGlobalInterception True markedReferenceWorld)) =
     Some (Bound (Foreign 1 True)) \<and>
   \<not> isIntercepting (reg (stopGlobalInterception True markedReferenceWorld)) \<and>
   hasWindow (loadModule True (Foreign 1 True)) \<and>
   originalFetch (reg (loadModule True (Foreign 1 True))) = None \<and>
   permanentOriginalFetch (reg (loadModule True (Foreign 1 True))) = None \<and>
   windowFetch (stopGlobalInterception True (loadModule True (Foreign 1 True))) = Foreign 1 True"
  using C3_stop_restore_chain
          [of markedReferenceWorld "Foreign 1 True" False "Bound (Foreign 1 True)"]
        C3_stop_restore_chain
          [of markedReferenceWorld "Foreign 1 True" True "Bound (Foreign 1 True)"]
        C3_stop_restore_chain
          [of "loadModule True (Foreign 1 True)" "Foreign 1 True" True "Bound (Foreign 1 True)"]
  by (simp add: markedReferenceWorld_def loadModule_def newRegistry_def)

subsection \<open>The backups\<close>

lemma native_start:
  "nativeFetchBackup (reg (startGlobalInterception w)) = nativeFetchBackup (reg w)"
  by (simp add: startGlobalInterception_def Let_def)

lemma permanent_start:
  "permanentOriginalFetch (reg w) = Some p \<Longrightarrow>
   permanentOriginalFetch (reg (startGlobalInterception w)) = Some p"
  by (simp add: startGlobalInterception_def Let_def)

lemma backups_stop:
  "nativeFetchBackup (reg (stopGlobalInterception dev w)) = nativeFetchBackup (reg w) \<and>
   permanentOriginalFetch (reg (stopGlobalInterception dev w)) = permanentOriginalFetch (reg w)"
  by (cases "originalFetch (reg w)"; cases "permanentOriginalFetch (reg w)";
      cases "nativeFetchBackup (reg w)"; cases dev)
     (simp_all add: stopGlobalInterception_def restoreStep_def verifyStep_def Let_def)

lemma backups_forceRestore:
  "nativeFetchBackup (reg (forceRestoreNativeFetch w)) = nativeFetchBackup (reg w) \<and>
   permanentOriginalFetch (reg (forceRestoreNativeFetch w)) = permanentOriginalFetch (reg w)"
  by (cases "nativeFetchBackup (reg w)") (simp_all add: forceRestoreNativeFetch_def)

text \<open>
  The write-once part of C5 holds: no operation changes the native backup, and none
  changes the permanent backup once it is set.
\<close>

lemma native_step: "nativeFetchBackup (reg (step a w)) = nativeFetchBackup (reg w)"
proof (cases a)
  case Start
  then show ?thesis by (simp add: native_start)
next
  case (Stop dev)
  then show ?thesis by (simp add: backups_stop)
next
  case ForceRestoreNative
  then show ?thesis by (simp add: backups_forceRestore)
next
  case AbortAll
  then show ?thesis
    using fetchView_abortAll [of w] by (cases "abortAll w") (simp_all add: fetchView_def)
next
  case (WrapperCall stamp req)
  then show ?thesis
    using fetchView_wrapperCall [of stamp req w] by (simp add: fetchView_def)
qed (simp_all add: register_def unregister_def wrapperSettle_def)

lemma permanent_step:
  assumes "permanentOriginalFetch (reg w) = Some p"
  shows "permanentOriginalFetch (reg (step a w)) = Some p"
proof (cases a)
  case Start
  with assms show ?thesis by (simp add: permanent_start)
next
  case (Stop dev)
  with assms show ?thesis by (simp add: backups_stop)
next
  case ForceRestoreNative
  with assms show ?thesis by (simp add: backups_forceRestore)
next
  case AbortAll
  with assms show ?thesis
    using fetchView_abortAll [of w] by (cases "abortAll w") (simp_all add: fetchView_def)
next
  case (WrapperCall stamp req)
  with assms show ?thesis
    using fetchView_wrapperCall [of stamp req w] by (simp add: fetchView_def)
qed (simp_all add: assms register_def unregister_def wrapperSettle_def)

lemma native_run: "nativeFetchBackup (reg (run as w)) = nativeFetchBackup (reg w)"
  by (induction as arbitrary: w) (simp_all add: native_step)

lemma permanent_run:
  "permanentOriginalFetch (reg w) = Some p \<Longrightarrow>
   permanentOriginalFetch (reg (run as w)) = Some p"
  by (induction as arbitrary: w) (simp_all add: permanent_step)

text \<open>
  C5 at the failing input. The module is loaded while the global fetch is a marked
  function (a wrapper that an earlier instance left installed). The first activation
  detects the marker and takes the native backup as the saved original, but snapshots
  the permanent backup from the marked function itself.
\<close>

theorem C5_permanent_backup_snapshot:
  "moduleLoaded (loadModule True (Foreign 1 True)) \<and>
   permanentOriginalFetch (reg (startGlobalInterception (loadModule True (Foreign 1 True)))) =
     Some (Foreign 1 True) \<and>
   marked (Foreign 1 True) \<and>
   originalFetch (reg (startGlobalInterception (loadModule True (Foreign 1 True)))) =
     Some (Bound (Foreign 1 True))"
  by (simp add: load_defs startGlobalInterception_def Let_def)

theorem C5_permanent_backup_snapshot_witness:
  "(case permanentOriginalFetch
           (reg (startGlobalInterception (loadModule True (Foreign 1 True)))) of
      Some p \<Rightarrow> marked p
    | None \<Rightarrow> False)"
  using C5_permanent_backup_snapshot by simp

subsection \<open>Calls that bypass tracking\<close>

text \<open>
  C6. Along every history of the registry from module load, when one of its wrappers is
  installed and either the bypass flag is set or the import flag is clear, a call through
  the wrapper invokes the saved original with the caller's arguments and leaves the
  whole state as it was: no entry is filed, no controller is allocated.
\<close>

theorem C6_wrapper_bypass:
  assumes "moduleLoaded w0"
      and "isWrapper (windowFetch (run as w0))"
      and "bulkImportDisableInterception (run as w0) \<or> \<not> bulkImportActive (run as w0)"
  shows "\<exists>f. originalFetch (reg (run as w0)) = Some f \<and>
             wrapperCall stamp req (run as w0) = (Inr (Untracked f), run as w0)"
proof -
  define v where "v = run as w0"
  from assms(1) have "registryInv v"
    by (simp add: v_def registryInv_run registryInv_moduleLoaded)
  with assms(2) obtain f where f: "hasWindow v" "originalFetch (reg v) = Some f"
    by (auto simp: registryInv_def v_def)
  from assms(3) have "bulkImportDisableInterception v \<or> \<not> bulkImportActive v"
    by (simp add: v_def)
  with f have "wrapperCall stamp req v = (Inr (Untracked f), v)"
    by (auto simp: wrapperCall_def Let_def)
  with f show ?thesis by (auto simp: v_def)
qed

theorem C6_wrapper_bypass_witness:
  "moduleLoaded (loadModule True (Foreign 0 False)) \<and>
   isWrapper (windowFetch (run [Start] (loadModule True (Foreign 0 False)))) \<and>
   \<not> bulkImportActive (run [Start] (loadModule True (Foreign 0 False))) \<and>
   wrapperCall ''17_0.5'' \<lparr> fetchRequest.url = ''/api/lists'', existingSignal = None \<rparr>
       (run [Start] (loadModule True (Foreign 0 False))) =
     (Inr (Untracked (Foreign 0 False)), run [Start] (loadModule True (Foreign 0 False)))"
  using C6_wrapper_bypass
          [of "loadModule True (Foreign 0 False)" "[Start]" "''17_0.5''"
              "\<lparr> fetchRequest.url = ''/api/lists'', existingSignal = None \<rparr>"]
  by (simp add: load_defs startGlobalInterception_def Let_def)

subsection \<open>Aborting everything\<close>

text \<open>
  What one pass of the guarded abort over a list of controllers does to the heap: every
  listed controller whose \<^verbatim>\<open>abort()\<close> does not raise ends up aborted, and nothing else
  changes. No exception leaves the loop.
\<close>

lemma abortOne_result:
  "abortOne c h =
     Inr (if \<not> aborted (h c) \<and> \<not> abortThrows (h c) then h(c := (h c)\<lparr>aborted := True\<rparr>) else h)"
  by (simp add: abortOne_def tryCatch_def abort_def)

lemma forEach_abortOne:
  "\<exists>h'. forEach abortOne cs h = Inr h' \<and>
        (\<forall>c. h' c = (if c \<in> set cs \<and> \<not> abortThrows (h c) then (h c)\<lparr>aborted := True\<rparr> else h c))"
proof (induction cs arbitrary: h)
  case Nil
  show ?case by simp
next
  case (Cons x xs)
  define h1 where
    "h1 = (if \<not> aborted (h x) \<and> \<not> abortThrows (h x) then h(x := (h x)\<lparr>aborted := True\<rparr>) else h)"
  have step: "forEach abortOne (x # xs) h = forEach abortOne xs h1"
    by (simp add: abortOne_result h1_def)
  have same: "abortThrows (h1 c) = abortThrows (h c)" for c
    by (simp add: h1_def)
  have val: "h1 c = (if c = x \<and> \<not> abortThrows (h c) then (h c)\<lparr>aborted := True\<rparr> else h c)" for c
    by (cases "aborted (h x)") (simp_all add: h1_def)
  from Cons.IH [of h1] obtain h' where
    h': "forEach abortOne xs h1 = Inr h'"
        "\<forall>c. h' c = (if c \<in> set xs \<and> \<not> abortThrows (h1 c) then (h1 c)\<lparr>aborted := True\<rparr> else h1 c)"
    by blast
  have "h' c = (if c \<in> set (x # xs) \<and> \<not> abortThrows (h c) then (h c)\<lparr>aborted := True\<rparr> else h c)"
    for c
  proof -
    have "h' c = (if c \<in> set xs \<and> \<not> abortThrows (h1 c) then (h1 c)\<lparr>aborted := True\<rparr> else h1 c)"
      using h'(2) by blast
    then show ?thesis by (auto simp: same val)
  qed
  with h'(1) step show ?case by simp
qed

lemma abortAll_result:
  "\<exists>h'. abortAll w =
          Inr (w\<lparr> heap := h', reg := (reg w)\<lparr> controllers := [], globalFetchControllers := [] \<rparr> \<rparr>) \<and>
        (\<forall>c. h' c =
           (if (c \<in> set (controllers (reg w)) \<or> c \<in> snd ` set (globalFetchControllers (reg w))) \<and>
               \<not> abortThrows (heap w c)
            then (heap w c)\<lparr>aborted := True\<rparr> else heap w c))"
proof -
  obtain h1 where h1: "forEach abortOne (controllers (reg w)) (heap w) = Inr h1"
    "\<forall>c. h1 c = (if c \<in> set (controllers (reg w)) \<and> \<not> abortThrows (heap w c)
                  then (heap w c)\<lparr>aborted := True\<rparr> else heap w c)"
    using forEach_abortOne [of "controllers (reg w)" "heap w"] by blast
  obtain h2 where h2: "forEach abortOne (map snd (globalFetchControllers (reg w))) h1 = Inr h2"
    "\<forall>c. h2 c = (if c \<in> set (map snd (globalFetchControllers (reg w))) \<and> \<not> abortThrows (h1 c)
                  then (h1 c)\<lparr>aborted := True\<rparr> else h1 c)"
    using forEach_abortOne [of "map snd (globalFetchControllers (reg w))" h1] by blast
  have "abortAll w =
      Inr (w\<lparr> heap := h2, reg := (reg w)\<lparr> controllers := [], globalFetchControllers := [] \<rparr> \<rparr>)"
    by (simp add: abortAll_def h1(1) h2(1))
  moreover have "h2 c =
           (if (c \<in> set (controllers (reg w)) \<or> c \<in> snd ` set (globalFetchControllers (reg w))) \<and>
               \<not> abortThrows (heap w c)
            then (heap w c)\<lparr>aborted := True\<rparr> else heap w c)" for c
  proof -
    have a: "h1 c = (if c \<in> set (controllers (reg w)) \<and> \<not> abortThrows (heap w c)
                  then (heap w c)\<lparr>aborted := True\<rparr> else heap w c)"
      using h1(2) by blast
    have b: "h2 c = (if c \<in> set (map snd (globalFetchControllers (reg w))) \<and> \<not> abortThrows (h1 c)
                  then (h1 c)\<lparr>aborted := True\<rparr> else h1 c)"
      using h2(2) by blast
    show ?thesis unfolding b a by auto
  qed
  ultimately show ?thesis by blast
qed

text \<open>
  C4. For collections of any size, \<^verbatim>\<open>abortAll\<close> returns, both collections are empty
  afterwards, so the count is 0, and every controller that was in either collection and
  whose \<^verbatim>\<open>abort()\<close> works is aborted.
\<close>

theorem C4_abortAll_clears:
  "\<exists>w'. abortAll w = Inr w' \<and>
         controllers (reg w') = [] \<and> globalFetchControllers (reg w') = [] \<and>
         getCount w' = 0 \<and>
         (\<forall>c \<in> set (controllers (reg w)) \<union> snd ` set (globalFetchControllers (reg w)).
            \<not> abortThrows (heap w c) \<longrightarrow> aborted (heap w' c))"
proof -
  from abortAll_result [of w] obtain h' where
    r: "abortAll w =
          Inr (w\<lparr> heap := h', reg := (reg w)\<lparr> controllers := [], globalFetchControllers := [] \<rparr> \<rparr>)"
    and h: "\<And>c. h' c =
           (if (c \<in> set (controllers (reg w)) \<or> c \<in> snd ` set (globalFetchControllers (reg w))) \<and>
               \<not> abortThrows (heap w c)
            then (heap w c)\<lparr>aborted := True\<rparr> else heap w c)"
    by blast
  show ?thesis
    unfolding r by (rule exI, intro conjI, rule refl) (auto simp: getCount_def h)
qed

theorem C4_abortAll_clears_witness:
  "(case abortAll busyWorld of
      Inr w' \<Rightarrow> getCount w' = 0 \<and> aborted (heap w' 3) \<and> aborted (heap w' 4) \<and> aborted (heap w' 1)
    | Inl e \<Rightarrow> False) \<and>
   getCount busyWorld = 4 \<and> \<not> abortThrows (heap busyWorld 3)"
proof -
  from C4_abortAll_clears [of busyWorld] obtain w' where
    w': "abortAll busyWorld = Inr w'" "getCount w' = 0"
        "\<forall>c \<in> set (controllers (reg busyWorld)) \<union> snd ` set (globalFetchControllers (reg busyWorld)).
            \<not> abortThrows (heap busyWorld c) \<longrightarrow> aborted (heap w' c)"
    by blast
  have "aborted (heap w' 3)" "aborted (heap w' 4)" "aborted (heap w' 1)"
    using w'(3) by (simp_all add: busyWorld_def loadModule_def newRegistry_def)
  moreover have "getCount busyWorld = 4" "\<not> abortThrows (heap busyWorld 3)"
    by (simp_all add: busyWorld_def loadModule_def newRegistry_def getCount_def)
  ultimately show ?thesis using w'(1,2) by simp
qed

text \<open>
  C7. \<^verbatim>\<open>abortAll\<close> never raises, whatever the two collections hold. A controller whose
  \<^verbatim>\<open>abort()\<close> raises keeps its state and does not stop the others: every other listed
  controller is aborted. A controller that was already aborted is left exactly as it was,
  and so is every controller outside the collections.
\<close>

theorem C7_abortAll_never_throws:
  "(\<forall>e. abortAll w \<noteq> Inl e) \<and>
   (\<exists>w'. abortAll w = Inr w' \<and>
      (\<forall>c. (c \<in> set (controllers (reg w)) \<or> c \<in> snd ` set (globalFetchControllers (reg w))) \<and>
            \<not> abortThrows (heap w c) \<longrightarrow> aborted (heap w' c)) \<and>
      (\<forall>c. abortThrows (heap w c) \<longrightarrow> heap w' c = heap w c) \<and>
      (\<forall>c. aborted (heap w c) \<longrightarrow> heap w' c = heap w c) \<and>
      (\<forall>c. c \<notin> set (controllers (reg w)) \<and> c \<notin> snd ` set (globalFetchControllers (reg w)) \<longrightarrow>
            heap w' c = heap w c))"
proof -
  from abortAll_result [of w] obtain h' where
    r: "abortAll w =
          Inr (w\<lparr> heap := h', reg := (reg w)\<lparr> controllers := [], globalFetchControllers := [] \<rparr> \<rparr>)"
    and h: "\<And>c. h' c =
           (if (c \<in> set (controllers (reg w)) \<or> c \<in> snd ` set (globalFetchControllers (reg w))) \<and>
               \<not> abortThrows (heap w c)
            then (heap w c)\<lparr>aborted := True\<rparr> else heap w c)"
    by blast
  have "\<forall>e. abortAll w \<noteq> Inl e" by (simp add: r)
  moreover have "\<exists>w'. abortAll w = Inr w' \<and>
      (\<forall>c. (c \<in> set (controllers (reg w)) \<or> c \<in> snd ` set (globalFetchControllers (reg w))) \<and>
            \<not> abortThrows (heap w c) \<longrightarrow> aborted (heap w' c)) \<and>
      (\<forall>c. abortThrows (heap w c) \<longrightarrow> heap w' c = heap w c) \<and>
      (\<forall>c. aborted (heap w c) \<longrightarrow> heap w' c = heap w c) \<and>
      (\<forall>c. c \<notin> set (controllers (reg w)) \<and> c \<notin> snd ` set (globalFetchControllers (reg w)) \<longrightarrow>
            heap w' c = heap w c)"
    unfolding r by (rule exI, intro conjI, rule refl) (auto simp: h)
  ultimately show ?thesis by blast
qed

theorem C7_abortAll_never_throws_witness:
  "abortThrows (heap busyWorld 2) \<and> aborted (heap busyWorld 1) \<and>
   (case abortAll busyWorld of
      Inr w' \<Rightarrow> aborted (heap w' 3) \<and> aborted (heap w' 4) \<and>
                heap w' 2 = heap busyWorld 2 \<and> heap w' 1 = heap busyWorld 1 \<and>
                heap w' 7 = heap busyWorld 7
    | Inl e \<Rightarrow> False)"
proof -
  from C7_abortAll_never_throws [of busyWorld] obtain w' where
    w': "abortAll busyWorld = Inr w'"
      "\<forall>c. (c \<in> set (controllers (reg busyWorld)) \<or>
             c \<in> snd ` set (globalFetchControllers (reg busyWorld))) \<and>
            \<not> abortThrows (heap busyWorld c) \<longrightarrow> aborted (heap w' c)"
      "\<forall>c. abortThrows (heap busyWorld c) \<longrightarrow> heap w' c = heap busyWorld c"
      "\<forall>c. aborted (heap busyWorld c) \<longrightarrow> heap w' c = heap busyWorld c"
      "\<forall>c. c \<notin> set (controllers (reg busyWorld)) \<and>
           c \<notin> snd ` set (globalFetchControllers (reg busyWorld)) \<longrightarrow>
            heap w' c = heap busyWorld c"
    by blast
  have facts: "abortThrows (heap busyWorld 2)" "aborted (heap busyWorld 1)"
    "\<not> abortThrows (heap busyWorld 3)" "\<not> abortThrows (heap busyWorld 4)"
    "controllers (reg busyWorld) = [2, 3]"
    "globalFetchControllers (reg busyWorld) = [(''/a_1_0.1'', 1), (''/b_2_0.2'', 4)]"
    by (simp_all add: busyWorld_def loadModule_def newRegistry_def)
  have "aborted (heap w' 3)" "aborted (heap w' 4)"
    using w'(2) facts by simp_all
  moreover have "heap w' 2 = heap busyWorld 2" using w'(3) facts(1) by blast
  moreover have "heap w' 1 = heap busyWorld 1" using w'(4) facts(2) by blast
  moreover have "heap w' 7 = heap busyWorld 7" using w'(5) facts(5,6) by simp
  ultimately show ?thesis using w'(1) facts(1,2) by simp
qed

subsection \<open>trackedFetch\<close>







section \<open>Properties of the bulk-import route\<close>















section \<open>Properties of the import pipeline\<close>

lemma active_abortAll: "abortAll w = Inr w' \<Longrightarrow> bulkImportActive w' = bulkImportActive w"
  by (auto simp: abortAll_def Let_def split: sum.splits)

lemma active_stop: "bulkImportActive (stopGlobalInterception dev w) = bulkImportActive w"
  by (cases "originalFetch (reg w)"; cases "permanentOriginalFetch (reg w)";
      cases "nativeFetchBackup (reg w)"; cases dev)
     (simp_all add: stopGlobalInterception_def restoreStep_def verifyStep_def Let_def)

lemma cleanup_clears: "\<not> bulkImportActive (fst (cleanup dev w))"
proof (cases "abortAll (w\<lparr> bulkImportActive := False \<rparr>)")
  case (Inl e)
  then show ?thesis by (simp add: cleanup_def active_stop)
next
  case (Inr w')
  then show ?thesis using active_abortAll [OF Inr] by (simp add: cleanup_def active_stop)
qed

lemma beginImport_final:
  "\<exists>w'. finalWorld (beginImport env rawFile w) = fst (cleanup (devBuild env) w')"
proof (cases "parseFile env rawFile")
  case (Pair records parseErrors)
  show ?thesis
  proof (cases "filter (validUrl env) records = []")
    case True
    with Pair have "finalWorld (beginImport env rawFile w) = fst (cleanup (devBuild env) w)"
      by (simp add: beginImport_def split: prod.splits)
    then show ?thesis by blast
  next
    case False
    with Pair have "finalWorld (beginImport env rawFile w) =
      fst (cleanup (devBuild env)
             (run (activity env) (startGlobalInterception (w\<lparr> bulkImportActive := True \<rparr>))))"
      by (simp add: beginImport_def Let_def split: prod.splits)
    then show ?thesis by blast
  qed
qed

text \<open>
  C1. Whatever the file, the batch endpoint, the records and the surrounding activity
  do, the session flag is false in the state in which \<^verbatim>\<open>beginImport\<close> ends.
\<close>

theorem C1_flag_cleared_after_import:
  "\<not> bulkImportActive (finalWorld (beginImport env rawFile w))"
proof -
  from beginImport_final [of env rawFile w] obtain w' where
    "finalWorld (beginImport env rawFile w) = fst (cleanup (devBuild env) w')"
    by blast
  then show ?thesis by (simp add: cleanup_clears)
qed

theorem C1_flag_cleared_after_import_witness:
  "errors (outcome (beginImport failingImport ''file'' (loadModule True (Foreign 0 False)))) =
     [''boom''] \<and>
   bulkImportActive (run (activity failingImport)
     (startGlobalInterception ((loadModule True (Foreign 0 False))\<lparr> bulkImportActive := True \<rparr>))) \<and>
   \<not> bulkImportActive (finalWorld
        (beginImport failingImport ''file'' (loadModule True (Foreign 0 False))))"
proof -
  have "errors (outcome (beginImport failingImport ''file'' (loadModule True (Foreign 0 False)))) =
     [''boom'']"
    by (simp add: beginImport_def failingImport_def Let_def split: prod.splits)
  moreover have "bulkImportActive (run (activity failingImport)
     (startGlobalInterception ((loadModule True (Foreign 0 False))\<lparr> bulkImportActive := True \<rparr>)))"
    by (simp add: failingImport_def)
  ultimately show ?thesis
    using C1_flag_cleared_after_import [of failingImport "''file''" "loadModule True (Foreign 0 False)"]
    by blast
qed

end
